theory Spec2Isabelle
  imports Complex_Main "HOL-Library.Word" "HOL-Library.Signed_Division"
begin

unbundle bit_operations_syntax

section \<open>Platform integers\<close>

text \<open>
  The firmware runs on an ESP8266: \<open>int\<close> and \<open>long\<close> are 32-bit two's complement and
  \<open>/\<close> truncates towards zero (\<open>sdiv\<close>). The values below are modelled as \<open>int\<close>:
  the only products formed are \<open>(x - 60) * 34\<close> with \<open>60 \<le> x \<le> 300\<close> and
  \<open>joy * 2\<close> with \<open>0 \<le> joy \<le> 255\<close>, so no 32-bit operation wraps.
  Bytes of the controller buffer are \<open>8 word\<close>.
\<close>

definition INT_MAX :: int where
  "INT_MAX = 2147483647"

text \<open>
  Modelled from the spec: the Arduino core function \<open>map(x, in_min, in_max, out_min, out_max)\<close>
  is called by \<open>Motors::setMapped\<close> and \<open>Nunchuck::Loop\<close> but is not part of the sources.
  The specification describes it as the linear interpolation of \<open>x\<close> from
  \<open>[in_min, in_max]\<close> onto \<open>[out_min, out_max]\<close>, rounded to the nearest integer; in the
  long arithmetic of the platform that is the quotient with half the divisor added first.
\<close>

definition map_long :: "int \<Rightarrow> int \<Rightarrow> int \<Rightarrow> int \<Rightarrow> int \<Rightarrow> int" where
  "map_long x in_min in_max out_min out_max =
     (let dividend = out_max - out_min;
          divisor = in_max - in_min;
          delta = x - in_min
      in (delta * dividend + (divisor sdiv 2)) sdiv divisor + out_min)"

section \<open>motors.h / motors.cpp\<close>

record MotorXY =
  motor_x :: int
  motor_y :: int
  fromMQTT :: bool

text \<open>
  The two motor drivers are external; what \<open>setMapped\<close> does to them is the sequence of
  its \<open>changeDuty\<close> and \<open>changeStatus\<close> calls (always on \<open>MOTOR_CH_BOTH\<close>), in program order.
\<close>

datatype motor_driver = leftMotors | rightMotors

datatype motor_status = MOTOR_STATUS_STOP | MOTOR_STATUS_CCW | MOTOR_STATUS_CW

datatype motor_call =
    changeDuty motor_driver int
  | changeStatus motor_driver motor_status

text \<open>The local parameters of \<open>Motors::setMapped\<close>.\<close>

definition maxDuty :: int where "maxDuty = 50"
definition maxRotationDuty :: int where "maxRotationDuty = 50"
definition SafeDistanceMM :: int where "SafeDistanceMM = 300"
definition DeadzoneMM :: int where "DeadzoneMM = 60"
definition minimumDuty :: int where "minimumDuty = 16"
definition maxTurnDuty :: int where "maxTurnDuty = maxDuty sdiv 2"

text \<open>
  What one call of \<open>setMapped\<close> produces: the value of \<open>Duty\<close> (it is written to the log),
  the driver calls, the final value of \<open>Direction\<close>, and the label published on
  \<open>MQTT_DIRECTION_TOPIC\<close>, if any.
\<close>

record setMapped_out =
  Duty :: int
  calls :: "motor_call list"
  Direction :: string
  published :: "string option"

definition setMapped :: "int \<Rightarrow> int \<Rightarrow> int \<Rightarrow> setMapped_out" where
  "setMapped mapx mapy laserRangeMilliMeter =
    (let D = (if laserRangeMilliMeter > SafeDistanceMM then maxDuty
              else if laserRangeMilliMeter \<le> SafeDistanceMM \<and> laserRangeMilliMeter \<ge> DeadzoneMM
                then map_long laserRangeMilliMeter DeadzoneMM SafeDistanceMM minimumDuty maxDuty
              else 0);
         (cs, dir) =
           (if mapx = 0 \<and> mapy = 1 then
              ([changeDuty leftMotors D, changeDuty rightMotors D,
                changeStatus leftMotors MOTOR_STATUS_CW, changeStatus rightMotors MOTOR_STATUS_CW],
               ''NORTH'')
            else if mapx = 1 \<and> mapy = 1 then
              ([changeDuty leftMotors maxDuty, changeDuty rightMotors maxTurnDuty,
                changeStatus leftMotors MOTOR_STATUS_CW, changeStatus rightMotors MOTOR_STATUS_CW],
               ''NORTH EAST'')
            else if mapx = 1 \<and> mapy = 0 then
              ([changeDuty leftMotors maxRotationDuty, changeDuty rightMotors maxRotationDuty,
                changeStatus leftMotors MOTOR_STATUS_CW, changeStatus rightMotors MOTOR_STATUS_CCW],
               ''EAST'')
            else if mapx = 1 \<and> mapy = - 1 then
              ([changeDuty leftMotors maxDuty, changeDuty rightMotors maxTurnDuty,
                changeStatus leftMotors MOTOR_STATUS_CCW, changeStatus rightMotors MOTOR_STATUS_CCW],
               ''SOUTH EAST'')
            else if mapx = 0 \<and> mapy = - 1 then
              ([changeDuty leftMotors maxDuty, changeDuty rightMotors maxDuty,
                changeStatus leftMotors MOTOR_STATUS_CCW, changeStatus rightMotors MOTOR_STATUS_CCW],
               ''SOUTH'')
            else if mapx = - 1 \<and> mapy = - 1 then
              ([changeDuty leftMotors maxTurnDuty, changeDuty rightMotors maxDuty,
                changeStatus leftMotors MOTOR_STATUS_CCW, changeStatus rightMotors MOTOR_STATUS_CCW],
               ''SOUTH WEST'')
            else if mapx = - 1 \<and> mapy = 0 then
              ([changeDuty leftMotors maxRotationDuty, changeDuty rightMotors maxRotationDuty,
                changeStatus leftMotors MOTOR_STATUS_CCW, changeStatus rightMotors MOTOR_STATUS_CW],
               ''WEST'')
            else if mapx = - 1 \<and> mapy = 1 then
              ([changeDuty leftMotors maxTurnDuty, changeDuty rightMotors maxDuty,
                changeStatus leftMotors MOTOR_STATUS_CW, changeStatus rightMotors MOTOR_STATUS_CW],
               ''NORTH WEST'')
            else
              ([changeStatus leftMotors MOTOR_STATUS_STOP, changeStatus rightMotors MOTOR_STATUS_STOP],
               ''STOP''))
     in \<lparr>Duty = D, calls = cs, Direction = dir,
         published = (if dir \<noteq> ''STOP'' then Some dir else None)\<rparr>)"

subsection \<open>The three stages of \<open>setMapped\<close>\<close>

text \<open>
  The specification names the stages of \<open>setMapped\<close> separately. \<open>planDuty\<close> is the
  first conditional (the value of \<open>Duty\<close>), \<open>classify\<close> is the chain of tests on
  \<open>(mapx, mapy)\<close>, and \<open>mapToWheels\<close> is the body of the branch taken.
\<close>

definition planDuty :: "int \<Rightarrow> int" where
  "planDuty laserRangeMilliMeter =
     (if laserRangeMilliMeter > SafeDistanceMM then maxDuty
      else if laserRangeMilliMeter \<le> SafeDistanceMM \<and> laserRangeMilliMeter \<ge> DeadzoneMM
        then map_long laserRangeMilliMeter DeadzoneMM SafeDistanceMM minimumDuty maxDuty
      else 0)"

datatype movement =
  NORTH | NORTH_EAST | EAST | SOUTH_EAST | SOUTH | SOUTH_WEST | WEST | NORTH_WEST | STOP

definition classify :: "int \<Rightarrow> int \<Rightarrow> movement" where
  "classify mapx mapy =
     (if mapx = 0 \<and> mapy = 1 then NORTH
      else if mapx = 1 \<and> mapy = 1 then NORTH_EAST
      else if mapx = 1 \<and> mapy = 0 then EAST
      else if mapx = 1 \<and> mapy = - 1 then SOUTH_EAST
      else if mapx = 0 \<and> mapy = - 1 then SOUTH
      else if mapx = - 1 \<and> mapy = - 1 then SOUTH_WEST
      else if mapx = - 1 \<and> mapy = 0 then WEST
      else if mapx = - 1 \<and> mapy = 1 then NORTH_WEST
      else STOP)"

fun mapToWheels :: "movement \<Rightarrow> int \<Rightarrow> motor_call list" where
  "mapToWheels NORTH c =
     [changeDuty leftMotors c, changeDuty rightMotors c,
      changeStatus leftMotors MOTOR_STATUS_CW, changeStatus rightMotors MOTOR_STATUS_CW]"
| "mapToWheels NORTH_EAST c =
     [changeDuty leftMotors maxDuty, changeDuty rightMotors maxTurnDuty,
      changeStatus leftMotors MOTOR_STATUS_CW, changeStatus rightMotors MOTOR_STATUS_CW]"
| "mapToWheels EAST c =
     [changeDuty leftMotors maxRotationDuty, changeDuty rightMotors maxRotationDuty,
      changeStatus leftMotors MOTOR_STATUS_CW, changeStatus rightMotors MOTOR_STATUS_CCW]"
| "mapToWheels SOUTH_EAST c =
     [changeDuty leftMotors maxDuty, changeDuty rightMotors maxTurnDuty,
      changeStatus leftMotors MOTOR_STATUS_CCW, changeStatus rightMotors MOTOR_STATUS_CCW]"
| "mapToWheels SOUTH c =
     [changeDuty leftMotors maxDuty, changeDuty rightMotors maxDuty,
      changeStatus leftMotors MOTOR_STATUS_CCW, changeStatus rightMotors MOTOR_STATUS_CCW]"
| "mapToWheels SOUTH_WEST c =
     [changeDuty leftMotors maxTurnDuty, changeDuty rightMotors maxDuty,
      changeStatus leftMotors MOTOR_STATUS_CCW, changeStatus rightMotors MOTOR_STATUS_CCW]"
| "mapToWheels WEST c =
     [changeDuty leftMotors maxRotationDuty, changeDuty rightMotors maxRotationDuty,
      changeStatus leftMotors MOTOR_STATUS_CCW, changeStatus rightMotors MOTOR_STATUS_CW]"
| "mapToWheels NORTH_WEST c =
     [changeDuty leftMotors maxTurnDuty, changeDuty rightMotors maxDuty,
      changeStatus leftMotors MOTOR_STATUS_CW, changeStatus rightMotors MOTOR_STATUS_CW]"
| "mapToWheels STOP c =
     [changeStatus leftMotors MOTOR_STATUS_STOP, changeStatus rightMotors MOTOR_STATUS_STOP]"

fun label :: "movement \<Rightarrow> string" where
  "label NORTH = ''NORTH''"
| "label NORTH_EAST = ''NORTH EAST''"
| "label EAST = ''EAST''"
| "label SOUTH_EAST = ''SOUTH EAST''"
| "label SOUTH = ''SOUTH''"
| "label SOUTH_WEST = ''SOUTH WEST''"
| "label WEST = ''WEST''"
| "label NORTH_WEST = ''NORTH WEST''"
| "label STOP = ''STOP''"

text \<open>
  The wheel command a call sequence leaves for one driver: the argument of its last
  \<open>changeDuty\<close> and of its last \<open>changeStatus\<close>, \<open>None\<close> when the sequence has no such call.
\<close>

fun dutyOf :: "motor_driver \<Rightarrow> motor_call list \<Rightarrow> int option" where
  "dutyOf m [] = None"
| "dutyOf m (changeDuty m' d # cs) =
     (case dutyOf m cs of Some d' \<Rightarrow> Some d' | None \<Rightarrow> if m' = m then Some d else None)"
| "dutyOf m (changeStatus m' s # cs) = dutyOf m cs"

fun spinOf :: "motor_driver \<Rightarrow> motor_call list \<Rightarrow> motor_status option" where
  "spinOf m [] = None"
| "spinOf m (changeStatus m' s # cs) =
     (case spinOf m cs of Some s' \<Rightarrow> Some s' | None \<Rightarrow> if m' = m then Some s else None)"
| "spinOf m (changeDuty m' d # cs) = spinOf m cs"

section \<open>laser.h\<close>

text \<open>
  Modelled from the spec: \<open>Laser::Loop\<close> is declared in laser.h but its body is not part of
  the sources. Its contract there and in the specification: the distance in millimeters,
  or the failure sentinel \<open>INT_MAX\<close> when the measurement failed.
\<close>

datatype measurement = Failed | Millimeters int

fun laser_Loop :: "measurement \<Rightarrow> int" where
  "laser_Loop Failed = INT_MAX"
| "laser_Loop (Millimeters d) = d"

section \<open>mqttClient.cpp\<close>

text \<open>
  \<open>MQTT::callback\<close> on a message whose topic is \<open>topic\<close> and whose JSON document is
  \<open>json\<close> (a missing key reads as 0 when converted to \<open>int\<close>); \<open>subscribed\<close> is the value
  of \<open>MQTT_TOPIC_SUBSCRIBE\<close>. The state is the member \<open>motorXY\<close>.
\<close>

definition json_int :: "(string \<rightharpoonup> int) \<Rightarrow> string \<Rightarrow> int" where
  "json_int json k = (case json k of Some v \<Rightarrow> v | None \<Rightarrow> 0)"

definition callback :: "string \<Rightarrow> MotorXY \<Rightarrow> string \<Rightarrow> (string \<rightharpoonup> int) \<Rightarrow> MotorXY" where
  "callback subscribed motorXY topic json =
     (if topic = subscribed then
        (if json ''left_x_mapped'' \<noteq> None then
           (let left_x_mapped = json_int json ''left_x_mapped'';
                left_y_mapped = json_int json ''left_y_mapped'';
                m0 = \<lparr>motor_x = 0, motor_y = 0, fromMQTT = True\<rparr>;
                m1 = (if left_x_mapped < - 10 then m0\<lparr>motor_x := - 1\<rparr> else m0);
                m2 = (if left_x_mapped > 10 then m1\<lparr>motor_x := 1\<rparr> else m1);
                m3 = (if left_y_mapped < - 10 then m2\<lparr>motor_y := 1\<rparr> else m2);
                m4 = (if left_y_mapped > 10 then m3\<lparr>motor_y := - 1\<rparr> else m3)
            in m4)
         else motorXY)
      else motorXY)"

text \<open>\<open>MQTT::Loop\<close>: the returned copy, and the member after the reset.\<close>

definition mqtt_Loop :: "MotorXY \<Rightarrow> MotorXY \<times> MotorXY" where
  "mqtt_Loop motorXY =
     (\<lparr>motor_x = motor_x motorXY, motor_y = motor_y motorXY, fromMQTT = fromMQTT motorXY\<rparr>,
      \<lparr>motor_x = 0, motor_y = 0, fromMQTT = False\<rparr>)"

section \<open>nunchuck.cpp\<close>

definition nunchuk_decode_byte :: "8 word \<Rightarrow> 8 word" where
  "nunchuk_decode_byte x = (x XOR 0x17) + 0x17"

text \<open>
  \<open>nunchuck_get_data\<close>: \<open>wire\<close> holds the bytes the I2C layer reports available, in the
  order \<open>Wire.read()\<close> returns them. \<open>nunchuck_buf\<close> has 6 elements; a store at an index
  beyond 5 is outside the array, which C leaves undefined: the model records every index
  stored to in \<open>writes\<close> and changes the buffer only for the indices inside it.
\<close>

record get_data_state =
  nunchuck_buf :: "8 word list"
  cnt :: nat
  writes :: "nat list"

fun get_data_loop :: "8 word list \<Rightarrow> get_data_state \<Rightarrow> get_data_state" where
  "get_data_loop [] s = s"
| "get_data_loop (b # wire) s =
     get_data_loop wire
       \<lparr>nunchuck_buf =
          (if cnt s < 6 then (nunchuck_buf s)[cnt s := nunchuk_decode_byte b]
           else nunchuck_buf s),
        cnt = cnt s + 1,
        writes = writes s @ [cnt s]\<rparr>"

definition nunchuck_get_data :: "8 word list \<Rightarrow> 8 word list \<Rightarrow> get_data_state \<times> int" where
  "nunchuck_get_data buf wire =
     (let s = get_data_loop wire \<lparr>nunchuck_buf = buf, cnt = 0, writes = []\<rparr>
      in (s, if cnt s \<ge> 5 then 1 else 0))"

definition nunchuck_joyx :: "8 word list \<Rightarrow> int" where
  "nunchuck_joyx buf = uint (buf ! 0)"

definition nunchuck_joyy :: "8 word list \<Rightarrow> int" where
  "nunchuck_joyy buf = uint (buf ! 1)"

text \<open>\<open>Nunchuck::Loop\<close>: the buffer after the read, and the pair returned.\<close>

definition nunchuck_Loop :: "8 word list \<Rightarrow> 8 word list \<Rightarrow> 8 word list \<times> MotorXY" where
  "nunchuck_Loop buf wire =
     (let buf' = nunchuck_buf (fst (nunchuck_get_data buf wire));
          joyx = nunchuck_joyx buf';
          joyy = nunchuck_joyy buf'
      in (buf', \<lparr>motor_x = map_long joyx 0 255 (- 1) 1,
                 motor_y = map_long joyy 0 255 (- 1) 1,
                 fromMQTT = False\<rparr>))"

section \<open>main.cpp\<close>

text \<open>
  One pass of \<open>loop()\<close>. The state carried between passes is the MQTT member \<open>motorXY\<close>
  and the controller buffer; the inputs of a pass are the bytes the controller delivers
  if it is polled and the laser measurement.
\<close>

record car =
  mqtt_motorXY :: MotorXY
  car_buf :: "8 word list"

definition loop :: "car \<Rightarrow> 8 word list \<Rightarrow> measurement \<Rightarrow> car \<times> MotorXY \<times> setMapped_out" where
  "loop s wire m =
     (let (ret, motorXY') = mqtt_Loop (mqtt_motorXY s);
          (buf', sel) = (if fromMQTT ret = False then nunchuck_Loop (car_buf s) wire
                         else (car_buf s, ret));
          laserRangeMilliMeter = laser_Loop m
      in (\<lparr>mqtt_motorXY = motorXY', car_buf = buf'\<rparr>, sel,
          setMapped (motor_x sel) (motor_y sel) laserRangeMilliMeter))"

section \<open>Shared lemmas\<close>

lemmas motor_params =
  maxDuty_def maxRotationDuty_def SafeDistanceMM_def DeadzoneMM_def minimumDuty_def
  maxTurnDuty_def

lemma sdiv_nonneg: "0 \<le> a \<Longrightarrow> 0 < b \<Longrightarrow> (a::int) sdiv b = a div b"
  by (cases "a = 0") (simp_all add: signed_divide_int_def)

lemma setMapped_stages:
  "setMapped mapx mapy r =
     \<lparr>Duty = planDuty r,
      calls = mapToWheels (classify mapx mapy) (planDuty r),
      Direction = label (classify mapx mapy),
      published = (if classify mapx mapy \<noteq> STOP then Some (label (classify mapx mapy)) else None)\<rparr>"
  by (simp add: setMapped_def planDuty_def classify_def Let_def)

lemma map_long_ramp:
  "60 \<le> d \<Longrightarrow> d \<le> 300 \<Longrightarrow> map_long d 60 300 16 50 = ((d - 60) * 34 + 120) div 240 + 16"
  by (simp add: map_long_def Let_def sdiv_nonneg signed_divide_int_def)

lemma planDuty_ramp:
  "DeadzoneMM \<le> d \<Longrightarrow> d \<le> SafeDistanceMM \<Longrightarrow>
   planDuty d = ((d - 60) * 34 + 120) div 240 + 16"
  by (simp add: planDuty_def motor_params map_long_ramp)

lemma map_long_joy:
  "0 \<le> j \<Longrightarrow> j \<le> 255 \<Longrightarrow> map_long j 0 255 (- 1) 1 = (j * 2 + 127) div 255 - 1"
  by (simp add: map_long_def Let_def sdiv_nonneg signed_divide_int_def)

lemma joy_split:
  "0 \<le> j \<Longrightarrow> j \<le> 255 \<Longrightarrow>
   map_long j 0 255 (- 1) 1 = (if j \<le> 63 then - 1 else if j \<le> 191 then 0 else 1)"
  by (simp add: map_long_joy) arith

lemma uint8_range: "0 \<le> uint (b :: 8 word) \<and> uint b \<le> 255"
  using uint_bounded[of b] by simp

lemma get_data_loop_writes:
  "writes (get_data_loop wire s) = writes s @ [cnt s ..< cnt s + length wire]"
proof (induction wire arbitrary: s)
  case Nil
  then show ?case by simp
next
  case (Cons b wire)
  have "[cnt s ..< cnt s + length (b # wire)] =
        cnt s # [Suc (cnt s) ..< Suc (cnt s) + length wire]"
    by (simp add: upt_rec)
  then show ?case by (simp add: Cons.IH)
qed

lemma get_data_writes: "writes (fst (nunchuck_get_data buf wire)) = [0 ..< length wire]"
  by (simp add: nunchuck_get_data_def Let_def get_data_loop_writes)

section \<open>Speed planner\<close>

text \<open>
  C8. With the parameters of the source (deadzone 60 mm, safe distance 300 mm, minimum
  duty 16, maximum duty 50) the duty computed at the zone boundaries is:
  16 at 60 mm, 50 at 300 mm, 50 at 301 mm and 0 at 59 mm.
\<close>

theorem planDuty_boundaries:
  "planDuty DeadzoneMM = minimumDuty \<and> planDuty SafeDistanceMM = maxDuty \<and>
   planDuty (SafeDistanceMM + 1) = maxDuty \<and> planDuty (DeadzoneMM - 1) = 0 \<and>
   planDuty 60 = 16 \<and> planDuty 300 = 50 \<and> planDuty 301 = 50 \<and> planDuty 59 = 0"
  by (simp add: planDuty_def motor_params map_long_def signed_divide_int_def)

text \<open>
  C7. Inside the ramp zone the duty never decreases with distance: for
  \<open>DeadzoneMM \<le> d1 < d2 \<le> SafeDistanceMM\<close>, \<open>planDuty d1 \<le> planDuty d2\<close>.
\<close>

theorem planDuty_mono:
  assumes "DeadzoneMM \<le> d1" and "d1 < d2" and "d2 \<le> SafeDistanceMM"
  shows "planDuty d1 \<le> planDuty d2"
proof -
  have "((d1 - 60) * 34 + 120) div 240 \<le> ((d2 - 60) * 34 + 120) div 240"
    using assms by (intro zdiv_mono1) simp_all
  then show ?thesis using assms by (simp add: planDuty_ramp)
qed

theorem planDuty_mono_witness:
  "DeadzoneMM \<le> 100 \<and> (100::int) < 200 \<and> 200 \<le> SafeDistanceMM \<and> planDuty 100 \<le> planDuty 200"
  using planDuty_mono [of 100 200] by (simp add: motor_params)

text \<open>
  C6. Inside the ramp zone the duty is the linear interpolation of the distance from
  \<open>[DeadzoneMM, SafeDistanceMM]\<close> onto \<open>[minimumDuty, maxDuty]\<close>, rounded to the nearest
  integer: it is \<open>round\<close> of the real value \<open>16 + (d - 60) * 34 / 240\<close>, and differs from
  that value by at most one half.
\<close>

theorem planDuty_ramp_rounded:
  assumes "DeadzoneMM \<le> d" and "d \<le> SafeDistanceMM"
  shows "planDuty d =
           round (real_of_int minimumDuty +
                  real_of_int (d - DeadzoneMM) * real_of_int (maxDuty - minimumDuty) /
                    real_of_int (SafeDistanceMM - DeadzoneMM)) \<and>
         \<bar>real_of_int (planDuty d) - (16 + real_of_int (d - 60) * 34 / 240)\<bar> \<le> 1 / 2"
proof -
  let ?n = "(d - 60) * 34"
  let ?r = "16 + real_of_int (d - 60) * 34 / 240"
  have half: "?r + 1 / 2 = real_of_int (?n + 120 + 16 * 240) / real_of_int 240"
    by (simp add: field_simps)
  have "round ?r = \<lfloor>real_of_int (?n + 120 + 16 * 240) / real_of_int 240\<rfloor>"
    unfolding round_def half ..
  also have "\<dots> = (?n + 120 + 16 * 240) div 240"
    by (rule floor_divide_of_int_eq)
  also have "\<dots> = (?n + 120) div 240 + 16"
    by simp
  finally have eq: "planDuty d = round ?r"
    using assms by (simp add: planDuty_ramp)
  have "\<bar>real_of_int (round ?r) - ?r\<bar> \<le> 1 / 2"
    using of_int_round_abs_le [of ?r] by simp
  with eq show ?thesis
    by (simp add: motor_params)
qed

theorem planDuty_ramp_rounded_witness:
  "DeadzoneMM \<le> 180 \<and> 180 \<le> SafeDistanceMM \<and> planDuty 180 = 33 \<and>
   \<bar>real_of_int (planDuty 180) - (16 + real_of_int (180 - 60) * 34 / 240)\<bar> \<le> 1 / 2"
  using planDuty_ramp_rounded [of 180]
  by (simp add: planDuty_def motor_params map_long_def signed_divide_int_def)

text \<open>
  C1 (as stated): when the range measurement fails and the range source returns its
  sentinel \<open>INT_MAX\<close>, the duty computed by the speed planner is not \<open>maxDuty\<close>.
  This fails: the sentinel is greater than \<open>SafeDistanceMM\<close>, so the first branch is
  taken, and a NORTH intent drives both wheels at duty 50.
\<close>

theorem range_failure_ceiling_counterexample:
  "laser_Loop Failed = INT_MAX \<and>
   Duty (setMapped 0 1 (laser_Loop Failed)) = maxDuty \<and>
   dutyOf leftMotors (calls (setMapped 0 1 (laser_Loop Failed))) = Some 50 \<and>
   dutyOf rightMotors (calls (setMapped 0 1 (laser_Loop Failed))) = Some 50"
  by (simp add: setMapped_def INT_MAX_def motor_params)

text \<open>
  C1 (amended): when the range measurement fails and the range source returns \<open>INT_MAX\<close>,
  \<open>setMapped\<close> treats the sentinel as a reading beyond \<open>SafeDistanceMM\<close>: for every intent
  pair the duty it computes is \<open>maxDuty\<close>, which is 50.
\<close>

theorem range_failure_full_duty:
  "planDuty (laser_Loop Failed) = maxDuty \<and>
   Duty (setMapped mapx mapy (laser_Loop Failed)) = maxDuty \<and>
   maxDuty = 50"
  by (simp add: setMapped_stages planDuty_def INT_MAX_def motor_params)

section \<open>Differential drive\<close>

text \<open>
  C2 (as stated): for NORTH, SOUTH and the four diagonal classes each wheel's duty is the
  ceiling \<open>c\<close> or \<open>c / 2\<close>; at 180 mm (ceiling 33) NORTH_EAST commands left duty 33 and
  right duty 16 or 17. This fails: at 180 mm the ceiling is 33, but the NORTH_EAST branch
  commands \<open>maxDuty\<close> = 50 on the left and \<open>maxTurnDuty\<close> = 25 on the right.
\<close>

theorem north_east_ignores_ceiling_counterexample:
  "classify 1 1 = NORTH_EAST \<and> planDuty 180 = 33 \<and>
   calls (setMapped 1 1 180) = mapToWheels NORTH_EAST 33 \<and>
   dutyOf leftMotors (calls (setMapped 1 1 180)) = Some 50 \<and>
   dutyOf rightMotors (calls (setMapped 1 1 180)) = Some 25 \<and>
   dutyOf leftMotors (mapToWheels NORTH_EAST 33) \<noteq> Some 33"
  by (simp add: setMapped_stages planDuty_def map_long_def signed_divide_int_def
      motor_params classify_def)

text \<open>
  C2 (amended): of the classes other than STOP, EAST and WEST only NORTH applies the
  duty ceiling \<open>c\<close>: both wheels get duty \<open>c\<close>, spinning CW. SOUTH commands \<open>maxDuty\<close> = 50
  on both wheels (CCW), and each diagonal class commands \<open>maxDuty\<close> = 50 on its outer
  wheel and \<open>maxTurnDuty\<close> = \<open>maxDuty / 2\<close> = 25 on its inner wheel, whatever \<open>c\<close> is;
  the calls of \<open>setMapped\<close> are those of the class of its intent pair at the ceiling
  planned from its range.
\<close>

theorem ceiling_applies_to_north_only:
  "mapToWheels NORTH c =
     [changeDuty leftMotors c, changeDuty rightMotors c,
      changeStatus leftMotors MOTOR_STATUS_CW, changeStatus rightMotors MOTOR_STATUS_CW] \<and>
   mapToWheels SOUTH c =
     [changeDuty leftMotors 50, changeDuty rightMotors 50,
      changeStatus leftMotors MOTOR_STATUS_CCW, changeStatus rightMotors MOTOR_STATUS_CCW] \<and>
   mapToWheels NORTH_EAST c =
     [changeDuty leftMotors 50, changeDuty rightMotors 25,
      changeStatus leftMotors MOTOR_STATUS_CW, changeStatus rightMotors MOTOR_STATUS_CW] \<and>
   mapToWheels SOUTH_EAST c =
     [changeDuty leftMotors 50, changeDuty rightMotors 25,
      changeStatus leftMotors MOTOR_STATUS_CCW, changeStatus rightMotors MOTOR_STATUS_CCW] \<and>
   mapToWheels SOUTH_WEST c =
     [changeDuty leftMotors 25, changeDuty rightMotors 50,
      changeStatus leftMotors MOTOR_STATUS_CCW, changeStatus rightMotors MOTOR_STATUS_CCW] \<and>
   mapToWheels NORTH_WEST c =
     [changeDuty leftMotors 25, changeDuty rightMotors 50,
      changeStatus leftMotors MOTOR_STATUS_CW, changeStatus rightMotors MOTOR_STATUS_CW] \<and>
   calls (setMapped mapx mapy r) = mapToWheels (classify mapx mapy) (planDuty r)"
  by (simp add: setMapped_stages motor_params signed_divide_int_def)

text \<open>
  C4 (as stated): \<open>classify 0 0 = STOP\<close>, and for STOP both sides get a wheel command
  with duty 0 and spin STOP. The duty part fails: the STOP branch calls \<open>changeStatus\<close>
  only, so no duty of 0 (indeed no duty at all) is sent to either driver.
\<close>

theorem stop_sends_no_duty_counterexample:
  "classify 0 0 = STOP \<and>
   changeDuty leftMotors 0 \<notin> set (calls (setMapped 0 0 500)) \<and>
   changeDuty rightMotors 0 \<notin> set (calls (setMapped 0 0 500)) \<and>
   dutyOf leftMotors (calls (setMapped 0 0 500)) \<noteq> Some 0"
  by (simp add: setMapped_stages classify_def)

text \<open>
  C4 (amended): \<open>classify 0 0 = STOP\<close>, and for every duty ceiling \<open>c\<close> the STOP class
  sends status STOP to the left and to the right driver and sends no duty to either of
  them.
\<close>

theorem stop_class_commands:
  "classify 0 0 = STOP \<and>
   mapToWheels STOP c =
     [changeStatus leftMotors MOTOR_STATUS_STOP, changeStatus rightMotors MOTOR_STATUS_STOP] \<and>
   calls (setMapped 0 0 r) = mapToWheels STOP c \<and>
   spinOf leftMotors (mapToWheels STOP c) = Some MOTOR_STATUS_STOP \<and>
   spinOf rightMotors (mapToWheels STOP c) = Some MOTOR_STATUS_STOP \<and>
   dutyOf leftMotors (mapToWheels STOP c) = None \<and>
   dutyOf rightMotors (mapToWheels STOP c) = None"
  by (simp add: setMapped_stages classify_def)

text \<open>
  C9. For an intent pair of class EAST or WEST the wheel commands do not depend on the
  range reading: for any two readings the driver calls (and the published label) are the
  same, both wheels get duty \<open>maxRotationDuty\<close>, and the spins are opposite
  (EAST: left CW, right CCW; WEST: left CCW, right CW).
\<close>

theorem rotation_ignores_range:
  assumes "classify x y \<in> {EAST, WEST}"
  shows "calls (setMapped x y r1) = calls (setMapped x y r2) \<and>
         published (setMapped x y r1) = published (setMapped x y r2) \<and>
         dutyOf leftMotors (calls (setMapped x y r1)) = Some maxRotationDuty \<and>
         dutyOf rightMotors (calls (setMapped x y r1)) = Some maxRotationDuty \<and>
         spinOf leftMotors (calls (setMapped x y r1)) =
           Some (if classify x y = EAST then MOTOR_STATUS_CW else MOTOR_STATUS_CCW) \<and>
         spinOf rightMotors (calls (setMapped x y r1)) =
           Some (if classify x y = EAST then MOTOR_STATUS_CCW else MOTOR_STATUS_CW)"
  using assms by (auto simp add: setMapped_stages)

theorem rotation_ignores_range_witness:
  "classify 1 0 = EAST \<and> classify (- 1) 0 = WEST \<and>
   calls (setMapped 1 0 10) = calls (setMapped 1 0 (laser_Loop Failed)) \<and>
   calls (setMapped (- 1) 0 500) = calls (setMapped (- 1) 0 0) \<and>
   dutyOf leftMotors (calls (setMapped (- 1) 0 500)) = Some 50 \<and>
   spinOf leftMotors (calls (setMapped (- 1) 0 500)) = Some MOTOR_STATUS_CCW \<and>
   spinOf rightMotors (calls (setMapped (- 1) 0 500)) = Some MOTOR_STATUS_CW"
  using rotation_ignores_range [of 1 0 10 "laser_Loop Failed"]
    rotation_ignores_range [of "- 1" 0 500 0]
  by (auto simp add: classify_def maxRotationDuty_def)

section \<open>Control inputs\<close>

text \<open>
  C5. The local controller reduces each raw joystick axis, a byte in 0..255, to an
  intent in \<open>{-1, 0, 1}\<close> by a fixed split: 0..63 gives -1, 64..191 gives 0 and 192..255
  gives 1. The split is symmetric about the midpoint of the range: the mirrored sample
  \<open>255 - j\<close> gives the negated intent.
\<close>

theorem nunchuck_midpoint_split:
  "(let (buf', m) = nunchuck_Loop buf wire;
        joyx = nunchuck_joyx buf';
        joyy = nunchuck_joyy buf'
    in 0 \<le> joyx \<and> joyx \<le> 255 \<and> 0 \<le> joyy \<and> joyy \<le> 255 \<and>
       motor_x m = (if joyx \<le> 63 then - 1 else if joyx \<le> 191 then 0 else 1) \<and>
       motor_y m = (if joyy \<le> 63 then - 1 else if joyy \<le> 191 then 0 else 1)) \<and>
   (0 \<le> j \<and> j \<le> 255 \<longrightarrow>
      map_long j 0 255 (- 1) 1 = (if j \<le> 63 then - 1 else if j \<le> 191 then 0 else 1) \<and>
      map_long (255 - j) 0 255 (- 1) 1 = - map_long j 0 255 (- 1) 1)"
proof -
  have mirrored: "map_long (255 - j) 0 255 (- 1) 1 = - map_long j 0 255 (- 1) 1"
    if "0 \<le> j" "j \<le> 255"
    using that joy_split [of j] joy_split [of "255 - j"] by (simp split: if_splits)
  show ?thesis
    using uint8_range mirrored
    by (simp add: nunchuck_Loop_def Let_def nunchuck_joyx_def nunchuck_joyy_def joy_split)
qed

theorem nunchuck_midpoint_split_witness:
  "snd (nunchuck_Loop [0, 0, 0, 0, 0, 0] [0xFF, 0x7E, 0, 0, 0, 0]) =
     \<lparr>motor_x = 1, motor_y = 0, fromMQTT = False\<rparr> \<and>
   (0::int) \<le> 10 \<and> (10::int) \<le> 255 \<and>
   map_long 10 0 255 (- 1) 1 = - 1 \<and> map_long (255 - 10) 0 255 (- 1) 1 = 1"
  using nunchuck_midpoint_split [of "[0, 0, 0, 0, 0, 0]" "[0xFF, 0x7E, 0, 0, 0, 0]" 10]
  by (simp add: nunchuck_Loop_def nunchuck_get_data_def nunchuk_decode_byte_def Let_def
      nunchuck_joyx_def nunchuck_joyy_def map_long_def signed_divide_int_def)

text \<open>
  C3. In every pass of the main loop, if the remote source produced a pair (the MQTT
  member has \<open>fromMQTT\<close> set, which the callback does for every control message carrying
  \<open>left_x_mapped\<close>), that pair is the one selected, whatever the local controller
  delivers; the local pair is selected exactly when the remote source produced none.
  A remote pair (0, 0), which the callback produces for a stick inside the dead band,
  gives class STOP: both drivers are commanded to stop and nothing is published, even
  if the local pair is not zero.
\<close>

theorem remote_preempts_local:
  "(fromMQTT (mqtt_motorXY s) \<longrightarrow>
      fst (snd (loop s wire m)) = mqtt_motorXY s \<and>
      snd (snd (loop s wire m)) =
        setMapped (motor_x (mqtt_motorXY s)) (motor_y (mqtt_motorXY s)) (laser_Loop m)) \<and>
   (\<not> fromMQTT (mqtt_motorXY s) \<longrightarrow>
      fst (snd (loop s wire m)) = snd (nunchuck_Loop (car_buf s) wire)) \<and>
   (fromMQTT (mqtt_motorXY s) \<and> motor_x (mqtt_motorXY s) = 0 \<and> motor_y (mqtt_motorXY s) = 0 \<longrightarrow>
      classify (motor_x (fst (snd (loop s wire m)))) (motor_y (fst (snd (loop s wire m)))) = STOP \<and>
      calls (snd (snd (loop s wire m))) =
        [changeStatus leftMotors MOTOR_STATUS_STOP, changeStatus rightMotors MOTOR_STATUS_STOP] \<and>
      published (snd (snd (loop s wire m))) = None) \<and>
   (topic = subscribed \<and> json ''left_x_mapped'' \<noteq> None \<longrightarrow>
      fromMQTT (callback subscribed old topic json)) \<and>
   (topic = subscribed \<and> json ''left_x_mapped'' = Some lx \<and> json ''left_y_mapped'' = Some ly \<and>
    - 10 \<le> lx \<and> lx \<le> 10 \<and> - 10 \<le> ly \<and> ly \<le> 10 \<longrightarrow>
      callback subscribed old topic json = \<lparr>motor_x = 0, motor_y = 0, fromMQTT = True\<rparr>)"
  by (auto simp add: loop_def mqtt_Loop_def Let_def split_beta setMapped_stages classify_def
      callback_def json_int_def)

theorem remote_preempts_local_witness:
  "snd (nunchuck_Loop [0, 0, 0, 0, 0, 0] [0xFF, 0x7E, 0, 0, 0, 0]) =
     \<lparr>motor_x = 1, motor_y = 0, fromMQTT = False\<rparr> \<and>
   calls (snd (snd (loop
      \<lparr>mqtt_motorXY = \<lparr>motor_x = 0, motor_y = 0, fromMQTT = True\<rparr>, car_buf = [0, 0, 0, 0, 0, 0]\<rparr>
      [0xFF, 0x7E, 0, 0, 0, 0] (Millimeters 500)))) =
     [changeStatus leftMotors MOTOR_STATUS_STOP, changeStatus rightMotors MOTOR_STATUS_STOP] \<and>
   fst (snd (loop
      \<lparr>mqtt_motorXY = \<lparr>motor_x = 0, motor_y = 0, fromMQTT = False\<rparr>, car_buf = [0, 0, 0, 0, 0, 0]\<rparr>
      [0xFF, 0x7E, 0, 0, 0, 0] (Millimeters 500))) =
     \<lparr>motor_x = 1, motor_y = 0, fromMQTT = False\<rparr> \<and>
   callback ''car/control'' \<lparr>motor_x = 1, motor_y = 1, fromMQTT = False\<rparr> ''car/control''
      [''left_x_mapped'' \<mapsto> 3, ''left_y_mapped'' \<mapsto> - 4] =
     \<lparr>motor_x = 0, motor_y = 0, fromMQTT = True\<rparr>"
  using remote_preempts_local
      [of "\<lparr>mqtt_motorXY = \<lparr>motor_x = 0, motor_y = 0, fromMQTT = True\<rparr>,
            car_buf = [0, 0, 0, 0, 0, 0]\<rparr>"
          "[0xFF, 0x7E, 0, 0, 0, 0]" "Millimeters 500" "''car/control''" "''car/control''"
          "[''left_x_mapped'' \<mapsto> 3, ''left_y_mapped'' \<mapsto> - 4]"
          "\<lparr>motor_x = 1, motor_y = 1, fromMQTT = False\<rparr>" 3 "- 4"]
    remote_preempts_local
      [of "\<lparr>mqtt_motorXY = \<lparr>motor_x = 0, motor_y = 0, fromMQTT = False\<rparr>,
            car_buf = [0, 0, 0, 0, 0, 0]\<rparr>"
          "[0xFF, 0x7E, 0, 0, 0, 0]" "Millimeters 500"]
  by (simp add: loop_def mqtt_Loop_def callback_def json_int_def setMapped_stages classify_def
      nunchuck_Loop_def nunchuck_get_data_def nunchuk_decode_byte_def Let_def
      nunchuck_joyx_def nunchuck_joyy_def map_long_def signed_divide_int_def)

section \<open>Controller buffer\<close>

text \<open>
  C10 (as stated): \<open>nunchuck_get_data\<close> stores the received bytes at the indices
  0, 1, 2, ... of the 6-byte buffer without a bound check, and whenever more than 6 bytes
  are delivered the index of each write exceeds 5. The last part fails: with 7 bytes
  delivered the first write still goes to index 0.
\<close>

theorem get_data_first_write_counterexample:
  "length [1, 2, 3, 4, 5, 6, 7 :: 8 word] > 6 \<and>
   writes (fst (nunchuck_get_data [0, 0, 0, 0, 0, 0] [1, 2, 3, 4, 5, 6, 7])) ! 0 = 0 \<and>
   \<not> 5 < writes (fst (nunchuck_get_data [0, 0, 0, 0, 0, 0] [1, 2, 3, 4, 5, 6, 7])) ! 0"
  by (simp add: nunchuck_get_data_def Let_def)

text \<open>
  C10 (amended): \<open>nunchuck_get_data\<close> stores the received bytes at the consecutive
  indices 0, 1, 2, ... of the 6-byte buffer, one store per byte the I2C layer reports
  available, without a bound check: every store is inside the buffer exactly when at
  most 6 bytes are delivered, and when more are delivered the index of the seventh and
  of every later store exceeds 5.
\<close>

theorem get_data_write_indices:
  "writes (fst (nunchuck_get_data buf wire)) = [0 ..< length wire] \<and>
   ((\<forall>i \<in> set (writes (fst (nunchuck_get_data buf wire))). i < 6) \<longleftrightarrow> length wire \<le> 6) \<and>
   (\<forall>k. 6 \<le> k \<and> k < length wire \<longrightarrow> 5 < writes (fst (nunchuck_get_data buf wire)) ! k)"
proof -
  have "(\<forall>i \<in> set [0 ..< length wire]. i < 6) \<longleftrightarrow> length wire \<le> 6"
    by (cases "length wire \<le> 6") (auto intro: bexI [of _ 6])
  then show ?thesis
    by (simp add: get_data_writes)
qed

theorem get_data_write_indices_witness:
  "writes (fst (nunchuck_get_data [0, 0, 0, 0, 0, 0] [1, 2, 3, 4, 5, 6, 7])) =
     [0, 1, 2, 3, 4, 5, 6] \<and>
   \<not> length [1, 2, 3, 4, 5, 6, 7 :: 8 word] \<le> 6 \<and>
   5 < writes (fst (nunchuck_get_data [0, 0, 0, 0, 0, 0] [1, 2, 3, 4, 5, 6, 7])) ! 6 \<and>
   writes (fst (nunchuck_get_data [0, 0, 0, 0, 0, 0] [1, 2, 3, 4, 5, 6])) =
     [0, 1, 2, 3, 4, 5] \<and>
   length [1, 2, 3, 4, 5, 6 :: 8 word] \<le> 6"
  using get_data_write_indices [of "[0, 0, 0, 0, 0, 0]" "[1, 2, 3, 4, 5, 6, 7]"]
    get_data_write_indices [of "[0, 0, 0, 0, 0, 0]" "[1, 2, 3, 4, 5, 6]"]
  by (simp add: nunchuck_get_data_def Let_def)

end
